theory Spec2Isabelle
  imports Complex_Main
begin

section \<open>Values received from the event channel\<close>

text \<open>
  The monitor (\<^verbatim>\<open>monitor-ai-planning.py\<close>) handles whatever \<^verbatim>\<open>json.loads\<close> returns:
  \<^verbatim>\<open>None\<close>, booleans, integers, floats, strings, lists and dictionaries. A dictionary
  is kept as the list of its items (keys distinct, as in a Python \<^verbatim>\<open>dict\<close>); the
  non-standard tokens \<^verbatim>\<open>NaN\<close> and \<^verbatim>\<open>Infinity\<close> are not represented.
\<close>

datatype json =
    JNull
  | JBool bool
  | JInt int
  | JFloat real
  | JStr string
  | JArr "json list"
  | JObj "(string \<times> json) list"

text \<open>The exception classes the code can raise on such values, those of the console
  library, and the transport ones.\<close>

datatype py_error =
    AttributeError
  | TypeError
  | ValueError
  | KeyError
  | IndexError
  | OverflowError
  | JSONDecodeError
  | MissingStyle
  | NotRenderableError
  | MarkupError
  | TransportError

text \<open>Python truthiness (\<^verbatim>\<open>if x\<close>, \<^verbatim>\<open>not x\<close>, \<^verbatim>\<open>x or y\<close>).\<close>

fun truthy :: "json \<Rightarrow> bool" where
  "truthy JNull = False"
| "truthy (JBool b) = b"
| "truthy (JInt i) = (i \<noteq> 0)"
| "truthy (JFloat r) = (r \<noteq> 0)"
| "truthy (JStr s) = (s \<noteq> [])"
| "truthy (JArr xs) = (xs \<noteq> [])"
| "truthy (JObj kv) = (kv \<noteq> [])"

definition py_or :: "json \<Rightarrow> json \<Rightarrow> json" where
  "py_or a b = (if truthy a then a else b)"

text \<open>\<^verbatim>\<open>d.get(key, default)\<close> on the items of a dictionary.\<close>

definition get :: "(string \<times> json) list \<Rightarrow> string \<Rightarrow> json \<Rightarrow> json" where
  "get kv k d = (case map_of kv k of Some v \<Rightarrow> v | None \<Rightarrow> d)"

text \<open>\<^verbatim>\<open>for x in v\<close>: lists yield their elements, dictionaries their keys, strings their
  characters; nothing else is iterable.\<close>

fun py_iter :: "json \<Rightarrow> py_error + json list" where
  "py_iter (JArr xs) = Inr xs"
| "py_iter (JObj kv) = Inr (map (\<lambda>p. JStr (fst p)) kv)"
| "py_iter (JStr cs) = Inr (map (\<lambda>c. JStr [c]) cs)"
| "py_iter _ = Inl TypeError"

text \<open>\<^verbatim>\<open>v[:30]\<close>: strings and lists can be sliced; \<^verbatim>\<open>None\<close>, numbers and booleans are not
  subscriptable, and a dictionary rejects a slice as a key (with a \<^verbatim>\<open>TypeError\<close> before
  Python 3.12 and a \<^verbatim>\<open>KeyError\<close> since; nothing here depends on which).\<close>

fun slice30 :: "json \<Rightarrow> py_error + json" where
  "slice30 (JStr s) = Inr (JStr (take 30 s))"
| "slice30 (JArr xs) = Inr (JArr (take 30 xs))"
| "slice30 _ = Inl TypeError"

text \<open>\<^verbatim>\<open>v[0]\<close>.\<close>

fun index0 :: "json \<Rightarrow> py_error + json" where
  "index0 (JArr []) = Inl IndexError"
| "index0 (JArr (x # xs)) = Inr x"
| "index0 (JStr []) = Inl IndexError"
| "index0 (JStr (c # cs)) = Inr (JStr [c])"
| "index0 (JObj kv) = Inl KeyError"
| "index0 _ = Inl TypeError"

text \<open>\<^verbatim>\<open>'recommendations' in v\<close>: key of a dictionary, element of a list, substring of
  a string; a \<^verbatim>\<open>TypeError\<close> otherwise.\<close>

fun contains :: "string \<Rightarrow> string \<Rightarrow> bool" where
  "contains needle [] = (needle = [])"
| "contains needle (c # cs) = (take (length needle) (c # cs) = needle \<or> contains needle cs)"

fun py_in :: "string \<Rightarrow> json \<Rightarrow> py_error + bool" where
  "py_in k (JObj kv) = Inr (map_of kv k \<noteq> None)"
| "py_in k (JArr xs) = Inr (JStr k \<in> set xs)"
| "py_in k (JStr s) = Inr (contains k s)"
| "py_in k _ = Inl TypeError"

text \<open>\<^verbatim>\<open>v['recommendations']\<close>: a string key indexes a dictionary only.\<close>

fun subscript :: "json \<Rightarrow> string \<Rightarrow> py_error + json" where
  "subscript (JObj kv) k = (case map_of kv k of Some v \<Rightarrow> Inr v | None \<Rightarrow> Inl KeyError)"
| "subscript _ k = Inl TypeError"

text \<open>The format specification \<^verbatim>\<open>{confidence:.2%}\<close> is defined for numbers (and
  booleans, which are integers); a string rejects the format code and every other value
  rejects a non-empty specification. An integer is converted to a float first, which
  overflows from \<open>2 ^ 1024 - 2 ^ 970\<close> on (the first integer that rounds to \<open>2 ^ 1024\<close>).\<close>

fun percent_ok :: "json \<Rightarrow> py_error + unit" where
  "percent_ok (JInt i) = (if 2 ^ 1024 - 2 ^ 970 \<le> \<bar>i\<bar> then Inl OverflowError else Inr ())"
| "percent_ok (JFloat r) = Inr ()"
| "percent_ok (JBool b) = Inr ()"
| "percent_ok (JStr s) = Inl ValueError"
| "percent_ok _ = Inl TypeError"

text \<open>\<^verbatim>\<open>s.upper()\<close> on the ASCII letters.\<close>

definition upper_char :: "char \<Rightarrow> char" where
  "upper_char c =
     (case map_of (zip ''abcdefghijklmnopqrstuvwxyz'' ''ABCDEFGHIJKLMNOPQRSTUVWXYZ'') c of
        Some u \<Rightarrow> u
      | None \<Rightarrow> c)"

definition upper :: "string \<Rightarrow> string" where
  "upper s = map upper_char s"

section \<open>The session and what it shows\<close>

text \<open>
  Formatted strings are kept symbolic: the literal pieces and the interpolated values, in
  order. An action records what was handed to the console and printed by it.
\<close>

datatype frag = Lit string | Val json

type_synonym ftext = "frag list"

record ai_thought =
  timestamp :: int
  phase :: json
  thought :: json

record artifact =
  workflowId :: string
  duration :: int
  aiThoughts :: "ai_thought list"
  testPlan :: "json option"
  findings_out :: "json list"

datatype action =
    Request_panel string string string
  | Ws_connected
  | Ws_error py_error
  | Thought_panel json json
  | Strategy_table "(json \<times> ftext \<times> json) list"
  | Reasoning_panel json
  | Classification_panel json json
  | Plan_table "(nat \<times> json \<times> json \<times> json) list"
  | First_step_panel json json json
  | Phase_banner ftext
  | Finding_panel json json json string string
  | Summary_panel string int nat nat bool
  | Artifact_written string artifact
  | Saved_notice string
  | Monitor_banner
  | Error_line py_error
  | Stopped_by_user
  | Fatal_error py_error
  | Exiting

text \<open>
  The fields of \<^verbatim>\<open>AITestMonitor\<close>, with the module's console and the files written kept
  as a log in \<open>console\<close>. Times are microseconds on the clock \<^verbatim>\<open>datetime.now()\<close> reads;
  a duration is a difference of two such readings.
\<close>

record session =
  backend_url :: string
  ws_url :: string
  workflow_id :: string
  ai_thoughts :: "ai_thought list"
  test_plan :: "json option"
  current_phase :: ftext
  findings :: "json list"
  start_time :: "int option"
  console :: "action list"

definition init :: "string \<Rightarrow> string \<Rightarrow> string \<Rightarrow> session" where
  "init backend ws uuid =
     \<lparr>backend_url = backend, ws_url = ws, workflow_id = uuid, ai_thoughts = [],
      test_plan = None, current_phase = [Lit ''Initializing''], findings = [],
      start_time = None, console = []\<rparr>"

definition emit :: "action \<Rightarrow> session \<Rightarrow> session" where
  "emit a s = s\<lparr>console := console s @ [a]\<rparr>"

section \<open>The console library\<close>

text \<open>
  The hooks hand their output to the console library (\<^verbatim>\<open>rich\<close>), which is not part of
  the program but can raise inside it. What is modelled of it:
  \<^item> \<^verbatim>\<open>Text(x)\<close> needs a string (\<^verbatim>\<open>AttributeError\<close> otherwise);
  \<^item> a table cell must be a string or \<^verbatim>\<open>None\<close>, the body of a panel a string
    (\<^verbatim>\<open>NotRenderableError\<close> otherwise);
  \<^item> a border style must be a colour the console knows: of the colours the program uses,
    \<^verbatim>\<open>orange\<close> is not one (\<^verbatim>\<open>MissingStyle\<close>);
  \<^item> strings handed over as renderables, cells or titles are parsed as console markup. A
    tag starts at a bracket followed by a lower-case letter, \<^verbatim>\<open>#\<close>, \<^verbatim>\<open>/\<close> or \<^verbatim>\<open>@\<close>. The
    literal text of the program is valid markup, and an interpolated value brings no tag
    when it is a number, a boolean, \<^verbatim>\<open>None\<close> or a string without a tag start (\<open>plain\<close>);
    then the text is printed. On any other text the markup parser decides whether it is
    printed or \<^verbatim>\<open>MarkupError\<close> is raised; its verdict is the constant \<open>console_rejects\<close>,
    about which nothing is assumed.
\<close>

fun renderable :: "json \<Rightarrow> bool" where
  "renderable (JStr s) = True"
| "renderable JNull = True"
| "renderable _ = False"

definition valid_style :: "string \<Rightarrow> bool" where
  "valid_style c = (c \<in> set [''red'', ''yellow'', ''blue'', ''cyan'', ''white''])"

fun tag_start :: "string \<Rightarrow> bool" where
  "tag_start (c # d # cs) =
     ((c = CHR ''['' \<and> d \<in> set ''abcdefghijklmnopqrstuvwxyz#/@'') \<or> tag_start (d # cs))"
| "tag_start _ = False"

fun plain :: "json \<Rightarrow> bool" where
  "plain (JStr s) = (\<not> tag_start s)"
| "plain (JArr xs) = False"
| "plain (JObj kv) = False"
| "plain _ = True"

definition console_rejects :: "action \<Rightarrow> bool" where
  "console_rejects = undefined"

text \<open>Printing the renderable \<open>a\<close>, whose interpolated values and cells are \<open>vs\<close>, raises
  \<^verbatim>\<open>MarkupError\<close>.\<close>

definition markup_error :: "json list \<Rightarrow> action \<Rightarrow> bool" where
  "markup_error vs a = (\<not> list_all plain vs \<and> console_rejects a)"

fun frag_values :: "ftext \<Rightarrow> json list" where
  "frag_values [] = []"
| "frag_values (Lit l # fs) = frag_values fs"
| "frag_values (Val v # fs) = v # frag_values fs"

section \<open>The display hooks\<close>

text \<open>
  Each hook takes the session and returns it with what was printed, and either \<open>Inr\<close>
  (the call returned) or \<open>Inl\<close> (the exception that left it). A hook called with the
  received message gets the items of that dictionary: \<^verbatim>\<open>handle_message\<close> has already
  called \<^verbatim>\<open>msg.get\<close> on it.
\<close>

text \<open>\<^verbatim>\<open>display_ai_thought\<close> appends to the thought log first; then \<^verbatim>\<open>Text(thought)\<close> is
  built, and the panel, whose title interpolates the phase, is printed.\<close>

definition display_ai_thought ::
  "int \<Rightarrow> json \<Rightarrow> json \<Rightarrow> session \<Rightarrow> session \<times> (py_error + unit)" where
  "display_ai_thought now ph th s =
     (let s1 = s\<lparr>ai_thoughts := ai_thoughts s @ [\<lparr>timestamp = now, phase = ph, thought = th\<rparr>]\<rparr>
      in case th of
           JStr t \<Rightarrow>
             if markup_error [ph] (Thought_panel th ph) then (s1, Inl MarkupError)
             else (emit (Thought_panel th ph) s1, Inr ())
         | _ \<Rightarrow> (s1, Inl AttributeError))"

text \<open>One \<^verbatim>\<open>table.add_row\<close> of \<^verbatim>\<open>display_strategy\<close>: the arguments are evaluated
  (\<^verbatim>\<open>rec.get\<close>), then the cells are checked in order.\<close>

definition strategy_row ::
  "(string \<times> json) list \<Rightarrow> json \<Rightarrow> py_error + (json \<times> ftext \<times> json)" where
  "strategy_row skv r =
     (case r of
        JObj rkv \<Rightarrow>
          (let ph = get skv ''phase'' (JStr ''N/A'');
               priority = get rkv ''priority'' (JStr ''medium'')
           in if renderable ph \<and> renderable priority then
                Inr (ph, [Val (get rkv ''tool'' (JStr ''Unknown'')), Lit '': '',
                          Val (get rkv ''purpose'' (JStr []))], priority)
              else Inl NotRenderableError)
      | _ \<Rightarrow> Inl AttributeError)"

fun strategy_rows ::
  "(string \<times> json) list \<Rightarrow> json list \<Rightarrow> py_error + (json \<times> ftext \<times> json) list" where
  "strategy_rows skv [] = Inr []"
| "strategy_rows skv (r # rs) =
     (case strategy_row skv r of
        Inl e \<Rightarrow> Inl e
      | Inr row \<Rightarrow>
          (case strategy_rows skv rs of
             Inl e \<Rightarrow> Inl e
           | Inr rows \<Rightarrow> Inr (row # rows)))"

definition recommendation_rows :: "json \<Rightarrow> py_error + (json \<times> ftext \<times> json) list" where
  "recommendation_rows strategy =
     (case py_in ''recommendations'' strategy of
        Inl e \<Rightarrow> Inl e
      | Inr False \<Rightarrow> Inr []
      | Inr True \<Rightarrow>
          (case subscript strategy ''recommendations'' of
             Inl e \<Rightarrow> Inl e
           | Inr recs \<Rightarrow>
               (case py_iter recs of
                  Inl e \<Rightarrow> Inl e
                | Inr rs \<Rightarrow>
                    (case strategy of
                       JObj skv \<Rightarrow> strategy_rows skv rs
                     | _ \<Rightarrow> Inl AttributeError))))"

fun strategy_values :: "(json \<times> ftext \<times> json) list \<Rightarrow> json list" where
  "strategy_values [] = []"
| "strategy_values ((ph, action_text, priority) # rows) =
     ph # frag_values action_text @ priority # strategy_values rows"

text \<open>The table is printed, then the reasoning panel.\<close>

definition display_strategy ::
  "(string \<times> json) list \<Rightarrow> session \<Rightarrow> session \<times> (py_error + unit)" where
  "display_strategy msg s =
     (let strategy = get msg ''strategy'' (JObj []);
          reasoning = get msg ''reasoning'' (JStr ''No reasoning provided'')
      in case recommendation_rows strategy of
           Inl e \<Rightarrow> (s, Inl e)
         | Inr rows \<Rightarrow>
             if markup_error (strategy_values rows) (Strategy_table rows) then (s, Inl MarkupError)
             else
               (let s1 = emit (Strategy_table rows) s
                in case reasoning of
                     JStr t \<Rightarrow>
                       if markup_error [reasoning] (Reasoning_panel reasoning)
                       then (s1, Inl MarkupError)
                       else (emit (Reasoning_panel reasoning) s1, Inr ())
                   | _ \<Rightarrow> (s1, Inl NotRenderableError)))"

definition display_classification ::
  "(string \<times> json) list \<Rightarrow> session \<Rightarrow> session \<times> (py_error + unit)" where
  "display_classification msg s =
     (let intent = get msg ''intent'' (JStr ''Unknown'');
          confidence = get msg ''confidence'' (JInt 0)
      in case percent_ok confidence of
           Inl e \<Rightarrow> (s, Inl e)
         | Inr _ \<Rightarrow>
             if markup_error [intent] (Classification_panel intent confidence)
             then (s, Inl MarkupError)
             else (emit (Classification_panel intent confidence) s, Inr ()))"

text \<open>One row of the plan table: the step number, the tool, the target cut to 30 and the
  purpose. \<open>pkv\<close> are the items of \<^verbatim>\<open>self.test_plan\<close>. The arguments are evaluated, then
  \<^verbatim>\<open>table.add_row\<close> checks the cells.\<close>

definition plan_row ::
  "(string \<times> json) list \<Rightarrow> nat \<Rightarrow> json \<Rightarrow> py_error + (nat \<times> json \<times> json \<times> json)" where
  "plan_row pkv i step =
     (case step of
        JObj skv \<Rightarrow>
          (case slice30 (get skv ''target'' (get pkv ''target'' (JStr ''N/A''))) of
             Inl e \<Rightarrow> Inl e
           | Inr target \<Rightarrow>
               (let tool = get skv ''tool'' (get skv ''name'' (JStr ''Unknown''));
                    purpose = get skv ''purpose'' (get skv ''description'' (JStr ''N/A''))
                in if renderable tool \<and> renderable target \<and> renderable purpose
                   then Inr (i, tool, target, purpose)
                   else Inl NotRenderableError))
      | _ \<Rightarrow> Inl AttributeError)"

fun plan_rows ::
  "(string \<times> json) list \<Rightarrow> nat \<Rightarrow> json list \<Rightarrow> py_error + (nat \<times> json \<times> json \<times> json) list"
where
  "plan_rows pkv i [] = Inr []"
| "plan_rows pkv i (step # rest) =
     (case plan_row pkv i step of
        Inl e \<Rightarrow> Inl e
      | Inr r \<Rightarrow>
          (case plan_rows pkv (Suc i) rest of
             Inl e \<Rightarrow> Inl e
           | Inr rs \<Rightarrow> Inr (r # rs)))"

fun plan_values :: "(nat \<times> json \<times> json \<times> json) list \<Rightarrow> json list" where
  "plan_values [] = []"
| "plan_values ((i, tool, target, purpose) # rows) = tool # target # purpose # plan_values rows"

text \<open>\<^verbatim>\<open>self.test_plan.get('steps', []) or self.test_plan.get('recommendations', [])\<close>.\<close>

definition plan_steps :: "(string \<times> json) list \<Rightarrow> json" where
  "plan_steps pkv = py_or (get pkv ''steps'' (JArr [])) (get pkv ''recommendations'' (JArr []))"

text \<open>The highlighted panel, printed after the table when \<^verbatim>\<open>steps\<close> is truthy.\<close>

definition step_details :: "(string \<times> json) list \<Rightarrow> action" where
  "step_details fkv =
     First_step_panel (get fkv ''tool'' (JStr ''Unknown'')) (get fkv ''purpose'' (JStr ''N/A''))
       (get fkv ''priority'' (JStr ''Not specified''))"

definition first_step_panel :: "json \<Rightarrow> session \<Rightarrow> session \<times> (py_error + unit)" where
  "first_step_panel steps s =
     (if truthy steps then
        (case index0 steps of
           Inl e \<Rightarrow> (s, Inl e)
         | Inr first_step \<Rightarrow>
             (case first_step of
                JObj fkv \<Rightarrow>
                  if markup_error
                       [get fkv ''tool'' (JStr ''Unknown''), get fkv ''purpose'' (JStr ''N/A''),
                        get fkv ''priority'' (JStr ''Not specified'')] (step_details fkv)
                  then (s, Inl MarkupError)
                  else (emit (step_details fkv) s, Inr ())
              | _ \<Rightarrow> (s, Inl AttributeError)))
      else (s, Inr ()))"

definition display_test_plan :: "session \<Rightarrow> session \<times> (py_error + unit)" where
  "display_test_plan s =
     (case test_plan s of
        None \<Rightarrow> (s, Inr ())
      | Some plan \<Rightarrow>
          if \<not> truthy plan then (s, Inr ())
          else
            (case plan of
               JObj pkv \<Rightarrow>
                 (let steps = plan_steps pkv
                  in case py_iter steps of
                       Inl e \<Rightarrow> (s, Inl e)
                     | Inr items \<Rightarrow>
                         (case plan_rows pkv 1 items of
                            Inl e \<Rightarrow> (s, Inl e)
                          | Inr rows \<Rightarrow>
                              if markup_error (plan_values rows) (Plan_table rows)
                              then (s, Inl MarkupError)
                              else first_step_panel steps (emit (Plan_table rows) s)))
             | _ \<Rightarrow> (s, Inl AttributeError)))"

text \<open>The fixed colour table: \<^verbatim>\<open>severity_colors.get(severity, 'white')\<close>. A list or a
  dictionary is unhashable and cannot be looked up.\<close>

definition severity_colors :: "(string \<times> string) list" where
  "severity_colors =
     [(''critical'', ''red''), (''high'', ''orange''), (''medium'', ''yellow''),
      (''low'', ''blue''), (''info'', ''cyan'')]"

fun severity_color :: "json \<Rightarrow> py_error + string" where
  "severity_color (JStr sv) =
     Inr (case map_of severity_colors sv of Some c \<Rightarrow> c | None \<Rightarrow> ''white'')"
| "severity_color (JArr xs) = Inl TypeError"
| "severity_color (JObj kv) = Inl TypeError"
| "severity_color _ = Inr ''white''"

text \<open>\<^verbatim>\<open>severity.upper()\<close>: only a string has the method.\<close>

fun severity_upper :: "json \<Rightarrow> py_error + string" where
  "severity_upper (JStr sv) = Inr (upper sv)"
| "severity_upper _ = Inl AttributeError"

text \<open>\<^verbatim>\<open>display_finding\<close>: the title is formatted (colour lookup, \<^verbatim>\<open>severity.upper()\<close>), the
  panel is built and printed: the console looks up the border style first, then parses
  the title and the body.\<close>

definition display_finding ::
  "(string \<times> json) list \<Rightarrow> session \<Rightarrow> session \<times> (py_error + unit)" where
  "display_finding finding s =
     (let severity = get finding ''severity'' (JStr ''info'')
      in case severity_color severity of
           Inl e \<Rightarrow> (s, Inl e)
         | Inr colour \<Rightarrow>
             (case severity_upper severity of
                Inl e \<Rightarrow> (s, Inl e)
              | Inr label \<Rightarrow>
                  (let panel = Finding_panel (get finding ''type'' (JStr ''Unknown''))
                                 (get finding ''description'' (JStr ''N/A''))
                                 (get finding ''impact'' (JStr ''N/A'')) colour label
                   in if \<not> valid_style colour then (s, Inl MissingStyle)
                      else if markup_error
                                [JStr label, get finding ''type'' (JStr ''Unknown''),
                                 get finding ''description'' (JStr ''N/A''),
                                 get finding ''impact'' (JStr ''N/A'')] panel
                      then (s, Inl MarkupError)
                      else (emit panel s, Inr ()))))"

text \<open>\<^verbatim>\<open>display_summary\<close>: the duration, the summary panel, the results file named after
  the workflow id, and the closing notice. Opening and writing the file are taken to
  succeed; what is dumped came from \<^verbatim>\<open>json.loads\<close> and can be serialized. The workflow
  id is the text of a UUID and brings no markup.\<close>

definition elapsed :: "int \<Rightarrow> int option \<Rightarrow> int" where
  "elapsed now started = (case started of Some t \<Rightarrow> now - t | None \<Rightarrow> 0)"

definition plan_generated :: "json option \<Rightarrow> bool" where
  "plan_generated p = (case p of None \<Rightarrow> False | Some v \<Rightarrow> truthy v)"

definition output_file :: "session \<Rightarrow> string" where
  "output_file s = ''ai-analysis-'' @ workflow_id s @ ''.json''"

definition summary_artifact :: "int \<Rightarrow> session \<Rightarrow> artifact" where
  "summary_artifact now s =
     \<lparr>workflowId = workflow_id s, duration = elapsed now (start_time s),
      aiThoughts = ai_thoughts s, testPlan = test_plan s, findings_out = findings s\<rparr>"

definition display_summary :: "int \<Rightarrow> session \<Rightarrow> session" where
  "display_summary now s =
     emit (Saved_notice (output_file s))
       (emit (Artifact_written (output_file s) (summary_artifact now s))
          (emit (Summary_panel (workflow_id s) (elapsed now (start_time s))
                   (length (ai_thoughts s)) (length (findings s))
                   (plan_generated (test_plan s))) s))"

section \<open>Classification of one message\<close>

text \<open>
  \<^verbatim>\<open>handle_message\<close> at time \<open>now\<close>. The result is the returned value (\<^verbatim>\<open>None\<close>, or
  \<^verbatim>\<open>False\<close> after \<^verbatim>\<open>workflow:complete\<close>) or the exception; the session returned is the one
  the call leaves behind, also when it raises. A hook's exception propagates (\<open>propagate\<close>);
  when the hook returns, so does \<^verbatim>\<open>handle_message\<close>, with \<^verbatim>\<open>None\<close>.
\<close>

definition propagate :: "session \<times> (py_error + unit) \<Rightarrow> session \<times> (py_error + bool option)" where
  "propagate r = (case r of (s', Inl e) \<Rightarrow> (s', Inl e) | (s', Inr u) \<Rightarrow> (s', Inr None))"

definition handle_message ::
  "int \<Rightarrow> json \<Rightarrow> session \<Rightarrow> session \<times> (py_error + bool option)" where
  "handle_message now msg s =
     (case msg of
        JObj kv \<Rightarrow>
          (let msg_type = get kv ''type'' (JStr ''unknown'') in
           if msg_type = JStr ''ai:thinking'' then
             propagate (display_ai_thought now (get kv ''phase'' (JStr ''general''))
                (get kv ''content'' (JStr [])) s)
           else if msg_type = JStr ''ai:strategy'' then
             propagate (display_strategy kv s)
           else if msg_type = JStr ''ai:classification'' then
             propagate (display_classification kv s)
           else if msg_type = JStr ''test:plan'' then
             propagate (display_test_plan (s\<lparr>test_plan := Some (get kv ''plan'' (JObj []))\<rparr>))
           else if msg_type = JStr ''test:start'' then
             (let new_phase = [Lit ''Running: '', Val (get kv ''test'' (JStr ''Unknown''))];
                  s1 = s\<lparr>current_phase := new_phase\<rparr>
              in if markup_error (frag_values new_phase) (Phase_banner new_phase)
                 then (s1, Inl MarkupError)
                 else (emit (Phase_banner new_phase) s1, Inr None))
           else if msg_type = JStr ''finding'' then
             propagate (display_finding kv (s\<lparr>findings := findings s @ [msg]\<rparr>))
           else if msg_type = JStr ''workflow:complete'' then
             (display_summary now s, Inr (Some False))
           else (s, Inr None))
      | _ \<Rightarrow> (s, Inl AttributeError))"

section \<open>The listening loop\<close>

text \<open>
  What one turn of \<^verbatim>\<open>while True\<close> in \<^verbatim>\<open>monitor_websocket\<close> can meet. \<^verbatim>\<open>json.loads\<close> is a
  library call: a frame is either text it decodes to a value or text it rejects.
  \<open>Interrupted\<close> is the operator's interrupt reaching the wait: a \<^verbatim>\<open>BaseException\<close>, which
  neither the inner handlers nor \<^verbatim>\<open>except Exception\<close> catch.
\<close>

datatype frame = Decodes json | Malformed

datatype recv =
    Message int frame
  | Timeout
  | Connection_closed
  | Recv_failed py_error
  | Interrupted

definition json_loads :: "frame \<Rightarrow> py_error + json" where
  "json_loads f = (case f of Decodes v \<Rightarrow> Inr v | Malformed \<Rightarrow> Inl JSONDecodeError)"

text \<open>
  How the loop is left: \<open>Broke\<close> by \<^verbatim>\<open>break\<close>, \<open>Escaped e\<close> by an exception no inner handler
  catches, \<open>Cancelled\<close> by the interrupt; \<open>Waiting\<close> when the script of receptions is used
  up and the loop is still waiting for the next frame.
\<close>

datatype loop_end = Waiting | Broke | Escaped py_error | Cancelled

fun listen :: "recv list \<Rightarrow> session \<Rightarrow> session \<times> loop_end" where
  "listen [] s = (s, Waiting)"
| "listen (Timeout # rs) s = listen rs s"
| "listen (Connection_closed # rs) s = (s, Broke)"
| "listen (Recv_failed e # rs) s = (s, Escaped e)"
| "listen (Interrupted # rs) s = (s, Cancelled)"
| "listen (Message now f # rs) s =
     (case json_loads f of
        Inl e \<Rightarrow> (s, Escaped e)
      | Inr msg \<Rightarrow>
          (case handle_message now msg s of
             (s', Inl e) \<Rightarrow> (s', Escaped e)
           | (s', Inr _) \<Rightarrow> listen rs s'))"

text \<open>
  \<^verbatim>\<open>monitor_websocket\<close>: connecting and subscribing may fail or be interrupted before the
  loop starts; an exception that leaves the loop is printed by the outer handler and the
  coroutine returns. The texts of the exceptions carry no markup tag, except that of
  \<^verbatim>\<open>MarkupError\<close>, which quotes the rejected tag: when the console rejects an error line in
  turn, that is a fault of the kind \<open>try_fault\<close> stands for below.
\<close>

datatype channel = Connect_failed py_error | Connect_interrupted | Connected "recv list"

datatype task_end = Pending | Returned | Aborted

definition monitor_websocket :: "channel \<Rightarrow> session \<Rightarrow> session \<times> task_end" where
  "monitor_websocket ch s =
     (case ch of
        Connect_failed e \<Rightarrow> (emit (Ws_error e) s, Returned)
      | Connect_interrupted \<Rightarrow> (s, Aborted)
      | Connected rs \<Rightarrow>
          (case listen rs (emit Ws_connected s) of
             (s', Waiting) \<Rightarrow> (s', Pending)
           | (s', Broke) \<Rightarrow> (s', Returned)
           | (s', Escaped e) \<Rightarrow> (emit (Ws_error e) s', Returned)
           | (s', Cancelled) \<Rightarrow> (s', Aborted)))"

section \<open>Dispatch, main and the script guard\<close>

text \<open>
  \<^verbatim>\<open>send_test_request\<close> records \<^verbatim>\<open>start_time\<close> and prints the request panel before its
  first suspension; \<open>response\<close> is how the HTTP exchange ends (the decoded body, or the
  exception raised).
\<close>

definition send_test_request ::
  "int \<Rightarrow> string \<Rightarrow> string \<Rightarrow> string \<Rightarrow> py_error + json \<Rightarrow> session
     \<Rightarrow> session \<times> (py_error + json)" where
  "send_test_request now target description scope response s =
     (emit (Request_panel target scope (take 100 description)) (s\<lparr>start_time := Some now\<rparr>),
      response)"

text \<open>
  One run of the program: the arguments, the generated workflow id, the clock when the
  request is sent, how the request ends, what the event channel delivers, where an
  interrupt surfaces (inside \<^verbatim>\<open>main\<close>'s \<^verbatim>\<open>try\<close> or at \<^verbatim>\<open>asyncio.run\<close>), and an exception
  raised inside the \<^verbatim>\<open>try\<close> by something other than the two tasks, if any (the console
  rejecting the text of an error line, for instance). The arguments are taken to carry
  no markup tag.
\<close>

datatype site = In_main | At_run

record run =
  arg_target :: string
  arg_description :: string
  arg_scope :: string
  arg_backend :: string
  arg_ws :: string
  uuid :: string
  sent_at :: int
  response :: "py_error + json"
  events :: channel
  interrupt_site :: site
  try_fault :: "py_error option"

text \<open>\<^verbatim>\<open>asyncio.gather(*tasks, return_exceptions=True)\<close> hands the tasks' exceptions back as
  results; \<^verbatim>\<open>main\<close> prints one line for each.\<close>

fun report_errors :: "(py_error + json) list \<Rightarrow> session \<Rightarrow> session" where
  "report_errors [] s = s"
| "report_errors (Inl e # rs) s = report_errors rs (emit (Error_line e) s)"
| "report_errors (Inr v # rs) s = report_errors rs s"

datatype main_end = Main_pending | Main_returned | Main_interrupted | Main_exit nat

text \<open>The two tasks \<^verbatim>\<open>main\<close> starts: the session they leave, the request's result and
  how the monitoring task ends (it returns \<^verbatim>\<open>None\<close> when it returns).\<close>

definition tasks :: "run \<Rightarrow> session \<times> (py_error + json) \<times> task_end" where
  "tasks r =
     (let monitor = emit Monitor_banner (init (arg_backend r) (arg_ws r) (uuid r));
          (s1, result1) = send_test_request (sent_at r) (arg_target r) (arg_description r)
                            (arg_scope r) (response r) monitor;
          (s2, t) = monitor_websocket (events r) s1
      in (s2, result1, t))"

definition main :: "run \<Rightarrow> session \<times> main_end" where
  "main r =
     (case tasks r of
        (s, result1, Pending) \<Rightarrow> (s, Main_pending)
      | (s, result1, Aborted) \<Rightarrow>
          (case interrupt_site r of
             In_main \<Rightarrow> (emit Stopped_by_user s, Main_returned)
           | At_run \<Rightarrow> (s, Main_interrupted))
      | (s, result1, Returned) \<Rightarrow>
          (case try_fault r of
             Some e \<Rightarrow> (emit (Fatal_error e) s, Main_exit 1)
           | None \<Rightarrow> (report_errors [result1, Inr JNull] s, Main_returned)))"

text \<open>The \<^verbatim>\<open>__main__\<close> guard: the process's output and its exit code (\<open>None\<close> while the
  program is still running).\<close>

definition program :: "run \<Rightarrow> session \<times> nat option" where
  "program r =
     (case main r of
        (s, Main_pending) \<Rightarrow> (s, None)
      | (s, Main_returned) \<Rightarrow> (s, Some 0)
      | (s, Main_interrupted) \<Rightarrow> (emit Exiting s, Some 0)
      | (s, Main_exit n) \<Rightarrow> (s, Some n))"

text \<open>The results files written so far, and the calls of \<^verbatim>\<open>display_summary\<close> (each writes
  exactly one).\<close>

fun is_artifact :: "action \<Rightarrow> bool" where
  "is_artifact (Artifact_written f a) = True"
| "is_artifact _ = False"

definition artifacts :: "session \<Rightarrow> action list" where
  "artifacts s = filter is_artifact (console s)"

definition finalize_calls :: "session \<Rightarrow> nat" where
  "finalize_calls s = length (artifacts s)"

section \<open>Replaying events, and the shapes of events\<close>

text \<open>Replaying a sequence of decoded events, each with the clock reading at which it is
  handled, is the listening loop run on exactly those frames.\<close>

definition replay :: "(int \<times> json) list \<Rightarrow> session \<Rightarrow> session \<times> loop_end" where
  "replay evs s = listen (map (\<lambda>(now, msg). Message now (Decodes msg)) evs) s"

text \<open>The discriminator \<^verbatim>\<open>msg.get('type', 'unknown')\<close> and the seven values
  \<^verbatim>\<open>handle_message\<close> compares it with.\<close>

definition msg_type :: "json \<Rightarrow> json" where
  "msg_type msg = (case msg of JObj kv \<Rightarrow> get kv ''type'' (JStr ''unknown'') | _ \<Rightarrow> JNull)"

definition recognized :: "json list" where
  "recognized =
     [JStr ''ai:thinking'', JStr ''ai:strategy'', JStr ''ai:classification'',
      JStr ''test:plan'', JStr ''test:start'', JStr ''finding'', JStr ''workflow:complete'']"

definition is_finding :: "json \<Rightarrow> bool" where
  "is_finding msg = (msg_type msg = JStr ''finding'')"

definition is_plan :: "json \<Rightarrow> bool" where
  "is_plan msg = (msg_type msg = JStr ''test:plan'')"

text \<open>The payload a plan event carries (\<^verbatim>\<open>msg.get('plan', {})\<close>).\<close>

definition plan_payload :: "json \<Rightarrow> json" where
  "plan_payload msg = (case msg of JObj kv \<Rightarrow> get kv ''plan'' (JObj []) | _ \<Rightarrow> JNull)"

text \<open>The events that replay hands to \<^verbatim>\<open>handle_message\<close>: all of them up to and including
  the first one on which it raises.\<close>

fun handled :: "(int \<times> json) list \<Rightarrow> session \<Rightarrow> (int \<times> json) list" where
  "handled [] s = []"
| "handled ((now, msg) # evs) s =
     (case handle_message now msg s of
        (s', Inl e) \<Rightarrow> [(now, msg)]
      | (s', Inr r) \<Rightarrow> (now, msg) # handled evs s')"

section \<open>What the hooks leave untouched\<close>

text \<open>The display hooks write to the console only (and \<^verbatim>\<open>display_ai_thought\<close> to the thought
  log); the findings, the plan and \<^verbatim>\<open>start_time\<close> are changed by \<^verbatim>\<open>handle_message\<close> and
  \<^verbatim>\<open>send_test_request\<close> alone, whether or not a hook raises.\<close>

lemma emit_fields:
  "ai_thoughts (emit a s) = ai_thoughts s" "findings (emit a s) = findings s"
  "test_plan (emit a s) = test_plan s" "start_time (emit a s) = start_time s"
  "workflow_id (emit a s) = workflow_id s" "console (emit a s) = console s @ [a]"
  by (simp_all add: emit_def)

lemma display_ai_thought_fields:
  "ai_thoughts (fst (display_ai_thought now ph th s)) =
     ai_thoughts s @ [\<lparr>timestamp = now, phase = ph, thought = th\<rparr>] \<and>
   findings (fst (display_ai_thought now ph th s)) = findings s \<and>
   test_plan (fst (display_ai_thought now ph th s)) = test_plan s \<and>
   start_time (fst (display_ai_thought now ph th s)) = start_time s"
  by (simp add: display_ai_thought_def Let_def emit_fields split: json.splits)

lemma display_strategy_fields:
  "ai_thoughts (fst (display_strategy kv s)) = ai_thoughts s \<and>
   findings (fst (display_strategy kv s)) = findings s \<and>
   test_plan (fst (display_strategy kv s)) = test_plan s \<and>
   start_time (fst (display_strategy kv s)) = start_time s"
  by (simp add: display_strategy_def Let_def emit_fields split: sum.splits json.splits)

lemma display_classification_fields:
  "ai_thoughts (fst (display_classification kv s)) = ai_thoughts s \<and>
   findings (fst (display_classification kv s)) = findings s \<and>
   test_plan (fst (display_classification kv s)) = test_plan s \<and>
   start_time (fst (display_classification kv s)) = start_time s"
  by (simp add: display_classification_def Let_def emit_fields split: sum.splits)

lemma display_finding_fields:
  "ai_thoughts (fst (display_finding kv s)) = ai_thoughts s \<and>
   findings (fst (display_finding kv s)) = findings s \<and>
   test_plan (fst (display_finding kv s)) = test_plan s \<and>
   start_time (fst (display_finding kv s)) = start_time s"
  by (simp add: display_finding_def Let_def emit_fields split: sum.splits)

lemma first_step_panel_fields:
  "ai_thoughts (fst (first_step_panel st s)) = ai_thoughts s \<and>
   findings (fst (first_step_panel st s)) = findings s \<and>
   test_plan (fst (first_step_panel st s)) = test_plan s \<and>
   start_time (fst (first_step_panel st s)) = start_time s"
  by (simp add: first_step_panel_def emit_fields split: sum.splits json.splits)

lemma display_test_plan_fields:
  "ai_thoughts (fst (display_test_plan s)) = ai_thoughts s \<and>
   findings (fst (display_test_plan s)) = findings s \<and>
   test_plan (fst (display_test_plan s)) = test_plan s \<and>
   start_time (fst (display_test_plan s)) = start_time s"
  by (simp add: display_test_plan_def Let_def emit_fields first_step_panel_fields
      split: sum.splits json.splits option.splits)

lemma display_summary_fields:
  "ai_thoughts (display_summary now s) = ai_thoughts s \<and>
   findings (display_summary now s) = findings s \<and>
   test_plan (display_summary now s) = test_plan s \<and>
   start_time (display_summary now s) = start_time s"
  by (simp add: display_summary_def emit_fields)

lemma fst_propagate: "fst (propagate r) = fst r"
  by (simp add: propagate_def split: prod.splits sum.splits)

lemma snd_propagate: "snd (propagate r) = (case snd r of Inl e \<Rightarrow> Inl e | Inr u \<Rightarrow> Inr None)"
  by (simp add: propagate_def split: prod.splits sum.splits)

lemmas hook_fields = emit_fields display_ai_thought_fields display_strategy_fields
  display_classification_fields display_finding_fields display_test_plan_fields
  display_summary_fields fst_propagate

lemma handle_message_plan:
  "test_plan (fst (handle_message now msg s)) =
     (if is_plan msg then Some (plan_payload msg) else test_plan s)"
  by (cases msg)
     (simp_all add: handle_message_def Let_def is_plan_def msg_type_def plan_payload_def
        hook_fields)

lemma handle_message_start_time:
  "start_time (fst (handle_message now msg s)) = start_time s"
  by (cases msg) (simp_all add: handle_message_def Let_def hook_fields)

section \<open>The loop, event by event\<close>

lemma listen_Message:
  "listen (Message now f # rs) s =
     (case json_loads f of
        Inl e \<Rightarrow> (s, Escaped e)
      | Inr msg \<Rightarrow>
          (case snd (handle_message now msg s) of
             Inl e \<Rightarrow> (fst (handle_message now msg s), Escaped e)
           | Inr r \<Rightarrow> listen rs (fst (handle_message now msg s))))"
  by (simp split: prod.splits sum.splits)

lemma listen_start_time: "start_time (fst (listen rs s)) = start_time s"
proof (induction rs arbitrary: s)
  case Nil
  show ?case by simp
next
  case (Cons r rs)
  show ?case
  proof (cases r)
    case (Message now f)
    with Cons show ?thesis
      by (simp only: listen_Message)
         (simp add: handle_message_start_time split: sum.splits)
  qed (simp_all add: Cons)
qed

lemma replay_Nil: "replay [] s = (s, Waiting)"
  by (simp add: replay_def)

lemma replay_Cons:
  "replay ((now, msg) # evs) s =
     (case snd (handle_message now msg s) of
        Inl e \<Rightarrow> (fst (handle_message now msg s), Escaped e)
      | Inr r \<Rightarrow> replay evs (fst (handle_message now msg s)))"
  by (simp add: replay_def json_loads_def split: prod.splits sum.splits)

lemma handled_Cons:
  "handled ((now, msg) # evs) s =
     (case snd (handle_message now msg s) of
        Inl e \<Rightarrow> [(now, msg)]
      | Inr r \<Rightarrow> (now, msg) # handled evs (fst (handle_message now msg s)))"
  by (simp split: prod.splits sum.splits)

lemma listen_append:
  "listen (pre @ rs) s = (case listen pre s of (s', Waiting) \<Rightarrow> listen rs s' | r \<Rightarrow> r)"
  by (induction pre s rule: listen.induct) (auto split: sum.splits prod.splits loop_end.splits)

lemma replay_plan_handled:
  "test_plan (fst (replay evs s)) =
     (case rev (filter is_plan (map snd (handled evs s))) of
        [] \<Rightarrow> test_plan s
      | msg # earlier \<Rightarrow> Some (plan_payload msg))"
proof (induction evs arbitrary: s)
  case Nil
  show ?case by (simp add: replay_Nil)
next
  case (Cons ev evs)
  obtain now msg where ev: "ev = (now, msg)" by (cases ev)
  show ?case
  proof (cases "snd (handle_message now msg s)")
    case (Inl e)
    with ev show ?thesis
      by (simp add: replay_Cons handled_Cons handle_message_plan del: handled.simps(2))
  next
    case (Inr r)
    with ev Cons.IH [of "fst (handle_message now msg s)"] show ?thesis
      by (simp add: replay_Cons handled_Cons handle_message_plan del: handled.simps(2) split: list.splits)
  qed
qed

lemma handled_prefix: "take (length (handled evs s)) evs = handled evs s"
proof (induction evs arbitrary: s)
  case Nil
  show ?case by simp
next
  case (Cons ev evs)
  obtain now msg where ev: "ev = (now, msg)" by (cases ev)
  with Cons show ?case by (simp add: handled_Cons del: handled.simps(2) split: sum.splits)
qed

lemma handled_all:
  "handled evs s = evs \<or> (\<exists>e. snd (replay evs s) = Escaped e)"
proof (induction evs arbitrary: s)
  case Nil
  show ?case by simp
next
  case (Cons ev evs)
  obtain now msg where ev: "ev = (now, msg)" by (cases ev)
  with Cons [of "fst (handle_message now msg s)"] show ?case
    by (auto simp add: handled_Cons replay_Cons simp del: handled.simps(2) split: sum.splits)
qed

lemmas eval_defs = json_loads_def handle_message_def get_def display_summary_def emit_def init_def
  display_finding_def display_ai_thought_def display_test_plan_def display_strategy_def
  display_classification_def first_step_panel_def step_details_def plan_steps_def py_or_def
  plan_row_def strategy_row_def propagate_def recommendation_rows_def markup_error_def
  valid_style_def finalize_calls_def artifacts_def upper_def upper_char_def severity_colors_def
  Let_def summary_artifact_def output_file_def elapsed_def plan_generated_def

section \<open>Finalization and exit codes\<close>

lemma artifacts_emit:
  "\<not> is_artifact a \<Longrightarrow> artifacts (emit a s) = artifacts s"
  by (simp add: artifacts_def emit_def)

lemma artifacts_report_errors: "artifacts (report_errors rs s) = artifacts s"
  by (induction rs s rule: report_errors.induct) (simp_all add: artifacts_emit)

lemma artifacts_program:
  "artifacts (fst (program r)) = artifacts (fst (tasks r))"
  by (simp add: program_def main_def artifacts_emit artifacts_report_errors
      split: prod.splits task_end.splits site.splits option.splits main_end.splits)

lemma artifacts_monitor:
  "artifacts (fst (monitor_websocket (Connected rs) s)) = artifacts (fst (listen rs (emit Ws_connected s)))"
  by (simp add: monitor_websocket_def artifacts_emit split: prod.splits loop_end.splits)

lemma listen_interrupt_append:
  "artifacts (fst (listen (pre @ Interrupted # rest) s)) = artifacts (fst (listen pre s))"
  by (simp add: listen_append [of pre] split: prod.splits loop_end.splits)

lemma artifacts_tasks:
  "artifacts (fst (tasks (r\<lparr>events := Connected rs\<rparr>))) =
     artifacts (fst (listen rs (emit Ws_connected (fst (send_test_request (sent_at r) (arg_target r)
        (arg_description r) (arg_scope r) (response r)
        (emit Monitor_banner (init (arg_backend r) (arg_ws r) (uuid r))))))))"
  by (simp add: tasks_def artifacts_monitor Let_def split_def)

lemma artifacts_start:
  "artifacts (emit Ws_connected (fst (send_test_request t tg d sc resp
        (emit Monitor_banner (init b w u))))) = []"
  by (simp add: send_test_request_def artifacts_def emit_def init_def)

lemma snd_tasks_response: "snd (snd (tasks (r\<lparr>response := d\<rparr>))) = snd (snd (tasks r))"
  by (simp add: tasks_def Let_def split_def send_test_request_def)

lemma snd_program:
  "snd (program r) =
     (case snd (snd (tasks r)) of
        Pending \<Rightarrow> None
      | Aborted \<Rightarrow> Some 0
      | Returned \<Rightarrow> (case try_fault r of None \<Rightarrow> Some 0 | Some e \<Rightarrow> Some 1))"
  by (simp add: program_def main_def
      split: prod.splits task_end.splits site.splits option.splits)

lemma start_time_tasks: "start_time (fst (tasks r)) = Some (sent_at r)"
  by (cases "events r")
     (simp_all add: tasks_def Let_def split_def monitor_websocket_def send_test_request_def
        emit_fields listen_start_time split: loop_end.splits)

section \<open>Rendering a plan\<close>

lemma plan_rows_length: "plan_rows pkv i items = Inr rows \<Longrightarrow> length rows = length items"
  by (induction items arbitrary: i rows) (auto split: sum.splits)

lemma plan_rows_first:
  "plan_rows pkv i (x # xs) = Inr rows \<Longrightarrow> \<exists>fkv. x = JObj fkv"
  by (cases x) (simp_all add: plan_row_def)

lemma py_iter_empty: "py_iter v = Inr [] \<Longrightarrow> \<not> truthy v"
  by (cases v) auto

lemma py_iter_obj: "py_iter v = Inr (JObj fkv # xs) \<Longrightarrow> v = JArr (JObj fkv # xs)"
  by (cases v) auto

lemma display_test_plan_success:
  assumes "test_plan s = Some (JObj pkv)" and "pkv \<noteq> []"
    and "display_test_plan s = (s', Inr ())"
  shows "\<exists>items rows. py_iter (plan_steps pkv) = Inr items \<and> plan_rows pkv 1 items = Inr rows \<and>
           length rows = length items \<and>
           (items = [] \<longrightarrow> s' = emit (Plan_table []) s) \<and>
           (items \<noteq> [] \<longrightarrow>
              (\<exists>fkv. hd items = JObj fkv \<and> plan_steps pkv = JArr items \<and>
                     s' = emit (step_details fkv) (emit (Plan_table rows) s)))"
proof -
  from assms obtain items where it: "py_iter (plan_steps pkv) = Inr items"
    by (cases "py_iter (plan_steps pkv)") (simp_all add: display_test_plan_def Let_def)
  from assms it obtain rows where rows: "plan_rows pkv 1 items = Inr rows"
    by (cases "plan_rows pkv 1 items") (simp_all add: display_test_plan_def Let_def)
  from assms it rows
  have fin: "first_step_panel (plan_steps pkv) (emit (Plan_table rows) s) = (s', Inr ())"
    by (simp add: display_test_plan_def Let_def split: if_splits)
  show ?thesis
  proof (cases items)
    case Nil
    with it have "\<not> truthy (plan_steps pkv)" by (simp add: py_iter_empty)
    with fin Nil rows it show ?thesis by (simp add: first_step_panel_def)
  next
    case (Cons x xs)
    with rows obtain fkv where x: "x = JObj fkv" using plan_rows_first by blast
    with it Cons have st: "plan_steps pkv = JArr (JObj fkv # xs)" by (simp add: py_iter_obj)
    with fin have "s' = emit (step_details fkv) (emit (Plan_table rows) s)"
      by (simp add: first_step_panel_def split: if_splits)
    with it rows Cons x st plan_rows_length [OF rows] show ?thesis by simp
  qed
qed

lemma display_test_plan_no_steps:
  assumes "test_plan s = Some (JObj pkv)" and "pkv \<noteq> []"
    and "map_of pkv ''steps'' = None" and "map_of pkv ''recommendations'' = None"
  shows "display_test_plan s = (emit (Plan_table []) s, Inr ())"
  using assms
  by (simp add: display_test_plan_def plan_steps_def py_or_def get_def first_step_panel_def
      markup_error_def)

lemma display_test_plan_falsy:
  assumes "test_plan s = None \<or> (\<exists>p. test_plan s = Some p \<and> \<not> truthy p)"
  shows "display_test_plan s = (s, Inr ())"
  using assms by (auto simp: display_test_plan_def)

section \<open>The properties of the specification\<close>

text \<open>
  C1. Processing a \<^verbatim>\<open>workflow:complete\<close> event should finalize exactly once per session and
  stop the event sequence. \<^verbatim>\<open>handle_message\<close> does call \<^verbatim>\<open>display_summary\<close> once and return
  \<^verbatim>\<open>False\<close>, but the loop of \<^verbatim>\<open>monitor_websocket\<close> discards the returned value: on the frames
  complete, finding, complete the loop is still waiting after the third frame, the summary
  has been written twice, and the finding that arrived after the first completion has
  been appended. Whatever receptions follow a completion event, the loop goes on with them.
\<close>

theorem C1_complete_does_not_stop_the_loop:
  "listen (Message now (Decodes (JObj [(''type'', JStr ''workflow:complete'')])) # rest) s =
     listen rest (display_summary now s) \<and>
   snd (handle_message 1 (JObj [(''type'', JStr ''workflow:complete'')]) (init ''b'' ''w'' ''id''))
     = Inr (Some False) \<and>
   snd (listen [Message 1 (Decodes (JObj [(''type'', JStr ''workflow:complete'')])),
                Message 2 (Decodes (JObj [(''type'', JStr ''finding'')])),
                Message 3 (Decodes (JObj [(''type'', JStr ''workflow:complete'')]))]
          (init ''b'' ''w'' ''id'')) = Waiting \<and>
   finalize_calls
     (fst (listen [Message 1 (Decodes (JObj [(''type'', JStr ''workflow:complete'')])),
                   Message 2 (Decodes (JObj [(''type'', JStr ''finding'')])),
                   Message 3 (Decodes (JObj [(''type'', JStr ''workflow:complete'')]))]
             (init ''b'' ''w'' ''id''))) = 2 \<and>
   findings
     (fst (listen [Message 1 (Decodes (JObj [(''type'', JStr ''workflow:complete'')])),
                   Message 2 (Decodes (JObj [(''type'', JStr ''finding'')])),
                   Message 3 (Decodes (JObj [(''type'', JStr ''workflow:complete'')]))]
             (init ''b'' ''w'' ''id''))) = [JObj [(''type'', JStr ''finding'')]]"
  by (simp add: eval_defs)

text \<open>
  C2, as stated, fails: a malformed frame between two valid findings is not dropped. The
  first finding (severity low) is shown and kept; the \<^verbatim>\<open>JSONDecodeError\<close> of the second
  frame leaves the loop, and the third frame, a valid finding, is never handled.
\<close>

theorem C2_counterexample:
  "snd (listen [Message 1 (Decodes (JObj [(''type'', JStr ''finding''), (''severity'', JStr ''low'')])),
                Message 2 Malformed,
                Message 3 (Decodes (JObj [(''type'', JStr ''finding''), (''severity'', JStr ''info'')]))]
          (init ''b'' ''w'' ''id'')) = Escaped JSONDecodeError \<and>
   findings
     (fst (listen [Message 1 (Decodes (JObj [(''type'', JStr ''finding''), (''severity'', JStr ''low'')])),
                   Message 2 Malformed,
                   Message 3 (Decodes (JObj [(''type'', JStr ''finding''), (''severity'', JStr ''info'')]))]
             (init ''b'' ''w'' ''id''))) =
     [JObj [(''type'', JStr ''finding''), (''severity'', JStr ''low'')]] \<and>
   console
     (fst (listen [Message 1 (Decodes (JObj [(''type'', JStr ''finding''), (''severity'', JStr ''low'')])),
                   Message 2 Malformed,
                   Message 3 (Decodes (JObj [(''type'', JStr ''finding''), (''severity'', JStr ''info'')]))]
             (init ''b'' ''w'' ''id''))) =
     [Finding_panel (JStr ''finding'') (JStr ''N/A'') (JStr ''N/A'') ''blue'' ''LOW'']"
  by (simp add: eval_defs)

text \<open>
  C2, amended. A frame that fails to parse ends listening: the exception leaves the
  receive loop with the session as it was before the frame, the frames after it are never
  handled (whatever frames \<open>pre\<close> came before), and \<^verbatim>\<open>monitor_websocket\<close> prints the
  WebSocket error and returns.
\<close>

theorem C2_malformed_frame_ends_listening:
  "listen (Message now Malformed # rest) s = (s, Escaped JSONDecodeError) \<and>
   listen (pre @ Message now Malformed # rest) s = listen (pre @ [Message now Malformed]) s \<and>
   monitor_websocket (Connected (Message now Malformed # rest)) s =
     (emit (Ws_error JSONDecodeError) (emit Ws_connected s), Returned)"
  by (simp add: listen_append [of pre] json_loads_def monitor_websocket_def
      split: prod.splits loop_end.splits)

text \<open>
  C3, as stated, fails: an interrupt before any event arrives writes no summary. The
  run below prints the banner, the request panel, the connection notice and the exit
  notice, and exits with code 0; no results file is written.
\<close>

theorem C3_counterexample:
  "program \<lparr>arg_target = ''https://sweetspotgov.com'', arg_description = ''test'',
      arg_scope = ''/*'', arg_backend = ''http://localhost:8001'', arg_ws = ''ws://localhost:8001'',
      uuid = ''id'', sent_at = 0, response = Inr (JObj []), events = Connected [Interrupted],
      interrupt_site = At_run, try_fault = None\<rparr> =
   (\<lparr>backend_url = ''http://localhost:8001'', ws_url = ''ws://localhost:8001'',
      workflow_id = ''id'', ai_thoughts = [], test_plan = None,
      current_phase = [Lit ''Initializing''], findings = [], start_time = Some 0,
      console = [Monitor_banner, Request_panel ''https://sweetspotgov.com'' ''/*'' ''test'',
                 Ws_connected, Exiting]\<rparr>, Some 0)"
  by (simp add: program_def main_def tasks_def monitor_websocket_def send_test_request_def
      emit_def init_def)

text \<open>
  C3, amended. Operator cancellation does not invoke finalization. An interrupt before
  any event arrives (or while connecting) ends the program with exit code 0 and no
  results file; an interrupt after some receptions \<open>pre\<close> leaves exactly the results files
  that those receptions had already produced (one per \<^verbatim>\<open>workflow:complete\<close> handled).
\<close>

theorem C3_interrupt_does_not_finalize:
  "snd (program (r\<lparr>events := Connected (Interrupted # rest)\<rparr>)) = Some 0 \<and>
   artifacts (fst (program (r\<lparr>events := Connected (Interrupted # rest)\<rparr>))) = [] \<and>
   snd (program (r\<lparr>events := Connect_interrupted\<rparr>)) = Some 0 \<and>
   artifacts (fst (program (r\<lparr>events := Connect_interrupted\<rparr>))) = [] \<and>
   artifacts (fst (program (r\<lparr>events := Connected (pre @ Interrupted # rest)\<rparr>))) =
     artifacts (fst (program (r\<lparr>events := Connected pre\<rparr>)))"
proof -
  have a: "snd (program (r\<lparr>events := Connected (Interrupted # rest)\<rparr>)) = Some 0"
    by (simp add: program_def main_def tasks_def monitor_websocket_def Let_def
        split: prod.splits site.splits)
  have b: "artifacts (fst (program (r\<lparr>events := Connected (Interrupted # rest)\<rparr>))) = []"
    by (simp add: artifacts_program artifacts_tasks artifacts_start)
  have c: "snd (program (r\<lparr>events := Connect_interrupted\<rparr>)) = Some 0"
    by (simp add: program_def main_def tasks_def monitor_websocket_def Let_def
        split: prod.splits site.splits)
  have "artifacts (fst (tasks (r\<lparr>events := Connect_interrupted\<rparr>))) = []"
    by (simp add: tasks_def monitor_websocket_def Let_def split_def
        send_test_request_def artifacts_def emit_def init_def)
  then have d: "artifacts (fst (program (r\<lparr>events := Connect_interrupted\<rparr>))) = []"
    by (simp only: artifacts_program)
  have e: "artifacts (fst (program (r\<lparr>events := Connected (pre @ Interrupted # rest)\<rparr>))) =
     artifacts (fst (program (r\<lparr>events := Connected pre\<rparr>)))"
    by (simp add: artifacts_program artifacts_tasks listen_interrupt_append)
  from a b c d e show ?thesis by blast
qed

text \<open>
  C4. After replaying well-formed events the findings should number the finding events.
  A finding of severity \<^verbatim>\<open>high\<close> is appended, and then its panel is given the border
  style \<^verbatim>\<open>orange\<close> of the colour table, which the console does not know: \<^verbatim>\<open>MissingStyle\<close>
  leaves the loop, whatever follows. On the two findings high, low the replay ends at the
  first with one finding stored, where the sequence has two finding events.
\<close>

theorem C4_high_severity_ends_replay:
  "listen (Message now (Decodes (JObj [(''type'', JStr ''finding''), (''severity'', JStr ''high'')])) # rest) s =
     (s\<lparr>findings := findings s @ [JObj [(''type'', JStr ''finding''), (''severity'', JStr ''high'')]]\<rparr>,
      Escaped MissingStyle) \<and>
   replay [(1, JObj [(''type'', JStr ''finding''), (''severity'', JStr ''high'')]),
           (2, JObj [(''type'', JStr ''finding''), (''severity'', JStr ''low'')])]
     (init ''b'' ''w'' ''id'') =
     ((init ''b'' ''w'' ''id'')
        \<lparr>findings := [JObj [(''type'', JStr ''finding''), (''severity'', JStr ''high'')]]\<rparr>,
      Escaped MissingStyle) \<and>
   length (filter is_finding
     (map snd [(1::int, JObj [(''type'', JStr ''finding''), (''severity'', JStr ''high'')]),
               (2, JObj [(''type'', JStr ''finding''), (''severity'', JStr ''low'')])])) = 2"
  by (simp add: replay_def eval_defs is_finding_def msg_type_def)

text \<open>
  C5, as stated, fails: after plan A, a finding whose severity is \<^verbatim>\<open>null\<close> and plan B, the
  plan of the session is A. The finding raises \<^verbatim>\<open>AttributeError\<close>, the loop is left, and
  the last plan event of the sequence is never seen.
\<close>

theorem C5_counterexample:
  "replay [(1, JObj [(''type'', JStr ''test:plan''),
                     (''plan'', JObj [(''steps'', JArr [JObj [(''tool'', JStr ''nmap'')]])])]),
           (2, JObj [(''type'', JStr ''finding''), (''severity'', JNull)]),
           (3, JObj [(''type'', JStr ''test:plan''),
                     (''plan'', JObj [(''steps'', JArr [JObj [(''tool'', JStr ''sqlmap'')]])])])]
     (init ''b'' ''w'' ''id'') =
   ((init ''b'' ''w'' ''id'')
      \<lparr>test_plan := Some (JObj [(''steps'', JArr [JObj [(''tool'', JStr ''nmap'')]])]),
       findings := [JObj [(''type'', JStr ''finding''), (''severity'', JNull)]],
       console := [Plan_table [(1, JStr ''nmap'', JStr ''N/A'', JStr ''N/A'')],
                   First_step_panel (JStr ''nmap'') (JStr ''N/A'') (JStr ''Not specified'')]\<rparr>,
    Escaped AttributeError) \<and>
   plan_payload (last (filter is_plan (map snd
     [(1::int, JObj [(''type'', JStr ''test:plan''),
                     (''plan'', JObj [(''steps'', JArr [JObj [(''tool'', JStr ''nmap'')]])])]),
      (2, JObj [(''type'', JStr ''finding''), (''severity'', JNull)]),
      (3, JObj [(''type'', JStr ''test:plan''),
                (''plan'', JObj [(''steps'', JArr [JObj [(''tool'', JStr ''sqlmap'')]])])])]))) =
     JObj [(''steps'', JArr [JObj [(''tool'', JStr ''sqlmap'')]])]"
  by (simp add: replay_def eval_defs is_plan_def msg_type_def plan_payload_def)

text \<open>
  C5, amended. A plan event replaces the plan wholesale with its payload
  (\<^verbatim>\<open>msg.get('plan', {})\<close>), also when rendering it raises, and no other event changes the
  plan. So after replaying any sequence the plan is the payload of the last plan event
  among the events handled (the plan before, if there is none). The events handled are a
  prefix of the sequence, and they are the whole sequence unless an exception left the
  loop.
\<close>

theorem C5_last_handled_plan_wins:
  "test_plan (fst (handle_message now msg s)) =
     (if is_plan msg then Some (plan_payload msg) else test_plan s) \<and>
   test_plan (fst (replay evs s)) =
     (case rev (filter is_plan (map snd (handled evs s))) of
        [] \<Rightarrow> test_plan s
      | msg # earlier \<Rightarrow> Some (plan_payload msg)) \<and>
   take (length (handled evs s)) evs = handled evs s \<and>
   (handled evs s = evs \<or> (\<exists>e. snd (replay evs s) = Escaped e))"
  using handle_message_plan [of now msg s] replay_plan_handled [of evs s]
    handled_prefix [of evs s] handled_all [of evs s]
  by blast

text \<open>
  C6, as stated, fails: in a run whose request fails with a transport error, a completion
  event handled 7 time units after the request was sent writes the duration 7, not zero.
\<close>

theorem C6_counterexample:
  "artifacts (fst (program \<lparr>arg_target = ''https://sweetspotgov.com'', arg_description = ''test'',
      arg_scope = ''/*'', arg_backend = ''http://localhost:9'', arg_ws = ''ws://localhost:8001'',
      uuid = ''id'', sent_at = 0, response = Inl TransportError,
      events = Connected [Message 7 (Decodes (JObj [(''type'', JStr ''workflow:complete'')])),
                          Connection_closed],
      interrupt_site = At_run, try_fault = None\<rparr>)) =
     [Artifact_written ''ai-analysis-id.json''
        \<lparr>workflowId = ''id'', duration = 7, aiThoughts = [], testPlan = None, findings_out = []\<rparr>] \<and>
   snd (program \<lparr>arg_target = ''https://sweetspotgov.com'', arg_description = ''test'',
      arg_scope = ''/*'', arg_backend = ''http://localhost:9'', arg_ws = ''ws://localhost:8001'',
      uuid = ''id'', sent_at = 0, response = Inl TransportError,
      events = Connected [Message 7 (Decodes (JObj [(''type'', JStr ''workflow:complete'')])),
                          Connection_closed],
      interrupt_site = At_run, try_fault = None\<rparr>) = Some 0"
  by (simp add: program_def main_def tasks_def monitor_websocket_def send_test_request_def
      eval_defs)

text \<open>
  C6, amended. \<^verbatim>\<open>display_summary\<close> prints the summary panel, writes the results file and
  prints the notice; the duration in the panel and in the file is zero when
  \<^verbatim>\<open>start_time\<close> is unset and the clock reading minus \<^verbatim>\<open>start_time\<close> otherwise.
  \<^verbatim>\<open>send_test_request\<close> sets \<^verbatim>\<open>start_time\<close> before it sends, however the request ends, and
  no event changes it: in every run the tasks leave it at the time the request was sent,
  and a completion event writes the time elapsed since then.
\<close>

theorem C6_duration_since_request:
  "console (display_summary now s) =
     console s @
       [Summary_panel (workflow_id s) (elapsed now (start_time s)) (length (ai_thoughts s))
          (length (findings s)) (plan_generated (test_plan s)),
        Artifact_written (output_file s) (summary_artifact now s),
        Saved_notice (output_file s)] \<and>
   duration (summary_artifact now s) = elapsed now (start_time s) \<and>
   elapsed now None = 0 \<and>
   elapsed now (Some t) = now - t \<and>
   start_time (fst (send_test_request t target description scope resp s)) = Some t \<and>
   start_time (fst (handle_message now msg s)) = start_time s \<and>
   start_time (fst (tasks r)) = Some (sent_at r) \<and>
   artifacts (fst (tasks (r\<lparr>events :=
       Connected [Message now (Decodes (JObj [(''type'', JStr ''workflow:complete'')]))]\<rparr>))) =
     [Artifact_written (''ai-analysis-'' @ uuid r @ ''.json'')
        \<lparr>workflowId = uuid r, duration = now - sent_at r, aiThoughts = [], testPlan = None,
         findings_out = []\<rparr>]"
proof -
  have a: "console (display_summary now s) =
     console s @
       [Summary_panel (workflow_id s) (elapsed now (start_time s)) (length (ai_thoughts s))
          (length (findings s)) (plan_generated (test_plan s)),
        Artifact_written (output_file s) (summary_artifact now s),
        Saved_notice (output_file s)]"
    by (simp add: display_summary_def emit_def)
  have b: "duration (summary_artifact now s) = elapsed now (start_time s) \<and>
   elapsed now None = 0 \<and> elapsed now (Some t) = now - t"
    by (simp add: summary_artifact_def elapsed_def)
  have c: "start_time (fst (send_test_request t target description scope resp s)) = Some t"
    by (simp add: send_test_request_def emit_def)
  have d: "artifacts (fst (tasks (r\<lparr>events :=
       Connected [Message now (Decodes (JObj [(''type'', JStr ''workflow:complete'')]))]\<rparr>))) =
     [Artifact_written (''ai-analysis-'' @ uuid r @ ''.json'')
        \<lparr>workflowId = uuid r, duration = now - sent_at r, aiThoughts = [], testPlan = None,
         findings_out = []\<rparr>]"
    by (simp add: tasks_def monitor_websocket_def send_test_request_def eval_defs)
  from a b c d handle_message_start_time [of now msg s] start_time_tasks [of r]
  show ?thesis by blast
qed

text \<open>
  C7, as stated, fails twice. A plan whose \<^verbatim>\<open>steps\<close> field is present but empty takes its
  rows from \<^verbatim>\<open>recommendations\<close>; and a plan event whose payload is the empty dictionary
  (no steps, no recommendations) prints nothing at all, not an empty table.
\<close>

theorem C7_counterexample:
  "handle_message 1
     (JObj [(''type'', JStr ''test:plan''),
            (''plan'', JObj [(''steps'', JArr []),
                             (''recommendations'', JArr [JObj [(''tool'', JStr ''nmap'')]])])])
     (init ''b'' ''w'' ''id'') =
   ((init ''b'' ''w'' ''id'')
      \<lparr>test_plan := Some (JObj [(''steps'', JArr []),
                                 (''recommendations'', JArr [JObj [(''tool'', JStr ''nmap'')]])]),
       console := [Plan_table [(1, JStr ''nmap'', JStr ''N/A'', JStr ''N/A'')],
                   First_step_panel (JStr ''nmap'') (JStr ''N/A'') (JStr ''Not specified'')]\<rparr>,
    Inr None) \<and>
   handle_message 1 (JObj [(''type'', JStr ''test:plan''), (''plan'', JObj [])])
     (init ''b'' ''w'' ''id'') =
   ((init ''b'' ''w'' ''id'')\<lparr>test_plan := Some (JObj [])\<rparr>, Inr None)"
  by (simp add: eval_defs)

text \<open>
  C7, amended. Nothing is rendered when the plan is \<^verbatim>\<open>None\<close> or falsy (an empty
  dictionary). For a non-empty plan dictionary: the steps are \<^verbatim>\<open>plan.steps\<close> if that value
  is truthy, else \<^verbatim>\<open>plan.recommendations\<close> (default empty); with neither field the table
  is empty and no exception is raised; and whenever rendering returns, the table has one
  row per step, followed by the first-step panel exactly when there is at least one
  step. A plan event is handled by storing its payload and rendering it.
\<close>

theorem C7_plan_rendering:
  "(test_plan s = None \<or> (\<exists>p. test_plan s = Some p \<and> \<not> truthy p) \<longrightarrow>
      display_test_plan s = (s, Inr ())) \<and>
   (test_plan s = Some (JObj pkv) \<and> pkv \<noteq> [] \<longrightarrow>
      plan_steps pkv =
        (if truthy (get pkv ''steps'' (JArr [])) then get pkv ''steps'' (JArr [])
         else get pkv ''recommendations'' (JArr [])) \<and>
      (map_of pkv ''steps'' = None \<and> map_of pkv ''recommendations'' = None \<longrightarrow>
         display_test_plan s = (emit (Plan_table []) s, Inr ())) \<and>
      (\<forall>s'. display_test_plan s = (s', Inr ()) \<longrightarrow>
         (\<exists>items rows. py_iter (plan_steps pkv) = Inr items \<and>
            plan_rows pkv 1 items = Inr rows \<and> length rows = length items \<and>
            (items = [] \<longrightarrow> s' = emit (Plan_table []) s) \<and>
            (items \<noteq> [] \<longrightarrow>
               (\<exists>fkv. hd items = JObj fkv \<and> plan_steps pkv = JArr items \<and>
                      s' = emit (step_details fkv) (emit (Plan_table rows) s)))))) \<and>
   (msg_type (JObj kv) = JStr ''test:plan'' \<longrightarrow>
      handle_message now (JObj kv) s =
        propagate (display_test_plan (s\<lparr>test_plan := Some (plan_payload (JObj kv))\<rparr>)))"
proof -
  have a: "test_plan s = None \<or> (\<exists>p. test_plan s = Some p \<and> \<not> truthy p) \<longrightarrow>
      display_test_plan s = (s, Inr ())"
    using display_test_plan_falsy by blast
  have b: "plan_steps pkv =
        (if truthy (get pkv ''steps'' (JArr [])) then get pkv ''steps'' (JArr [])
         else get pkv ''recommendations'' (JArr []))"
    by (simp add: plan_steps_def py_or_def)
  have c: "test_plan s = Some (JObj pkv) \<and> pkv \<noteq> [] \<longrightarrow>
      (map_of pkv ''steps'' = None \<and> map_of pkv ''recommendations'' = None \<longrightarrow>
         display_test_plan s = (emit (Plan_table []) s, Inr ()))"
    using display_test_plan_no_steps by blast
  have d: "test_plan s = Some (JObj pkv) \<and> pkv \<noteq> [] \<longrightarrow>
      (\<forall>s'. display_test_plan s = (s', Inr ()) \<longrightarrow>
         (\<exists>items rows. py_iter (plan_steps pkv) = Inr items \<and>
            plan_rows pkv 1 items = Inr rows \<and> length rows = length items \<and>
            (items = [] \<longrightarrow> s' = emit (Plan_table []) s) \<and>
            (items \<noteq> [] \<longrightarrow>
               (\<exists>fkv. hd items = JObj fkv \<and> plan_steps pkv = JArr items \<and>
                      s' = emit (step_details fkv) (emit (Plan_table rows) s)))))"
    using display_test_plan_success by blast
  have e: "msg_type (JObj kv) = JStr ''test:plan'' \<longrightarrow>
      handle_message now (JObj kv) s =
        propagate (display_test_plan (s\<lparr>test_plan := Some (plan_payload (JObj kv))\<rparr>))"
    by (simp add: msg_type_def handle_message_def plan_payload_def Let_def)
  from a b c d e show ?thesis by blast
qed

text \<open>
  C7 at a plan with one step (a one-row table and the panel), at a plan with a target
  only (an empty table), at a session without a plan and at a plan event without payload
  (nothing rendered).
\<close>

theorem C7_witness:
  "test_plan ((init ''b'' ''w'' ''id'')\<lparr>test_plan := Some (JObj [(''steps'', JArr [JObj [(''tool'', JStr ''nmap''), (''purpose'', JStr ''port scan'')]])])\<rparr>) = Some (JObj [(''steps'', JArr [JObj [(''tool'', JStr ''nmap''), (''purpose'', JStr ''port scan'')]])]) \<and>
   display_test_plan ((init ''b'' ''w'' ''id'')\<lparr>test_plan := Some (JObj [(''steps'', JArr [JObj [(''tool'', JStr ''nmap''), (''purpose'', JStr ''port scan'')]])])\<rparr>) =
     (emit (First_step_panel (JStr ''nmap'') (JStr ''port scan'') (JStr ''Not specified''))
        (emit (Plan_table [(1, JStr ''nmap'', JStr ''N/A'', JStr ''port scan'')]) ((init ''b'' ''w'' ''id'')\<lparr>test_plan := Some (JObj [(''steps'', JArr [JObj [(''tool'', JStr ''nmap''), (''purpose'', JStr ''port scan'')]])])\<rparr>)), Inr ()) \<and>
   (\<exists>items rows. py_iter (plan_steps [(''steps'', JArr [JObj [(''tool'', JStr ''nmap''), (''purpose'', JStr ''port scan'')]])]) = Inr items \<and>
      plan_rows [(''steps'', JArr [JObj [(''tool'', JStr ''nmap''), (''purpose'', JStr ''port scan'')]])] 1 items = Inr rows \<and> length rows = length items) \<and>
   map_of [(''target'', JStr ''a.example'')] ''steps'' = None \<and> map_of [(''target'', JStr ''a.example'')] ''recommendations'' = None \<and>
   display_test_plan ((init ''b'' ''w'' ''id'')\<lparr>test_plan := Some (JObj [(''target'', JStr ''a.example'')])\<rparr>) = (emit (Plan_table []) ((init ''b'' ''w'' ''id'')\<lparr>test_plan := Some (JObj [(''target'', JStr ''a.example'')])\<rparr>), Inr ()) \<and>
   test_plan (init ''b'' ''w'' ''id'') = None \<and>
   display_test_plan (init ''b'' ''w'' ''id'') = (init ''b'' ''w'' ''id'', Inr ()) \<and>
   msg_type (JObj [(''type'', JStr ''test:plan'')]) = JStr ''test:plan'' \<and>
   handle_message 1 (JObj [(''type'', JStr ''test:plan'')]) (init ''b'' ''w'' ''id'') =
     ((init ''b'' ''w'' ''id'')\<lparr>test_plan := Some (JObj [])\<rparr>, Inr None)"
proof -
  let ?p1 = "[(''steps'', JArr [JObj [(''tool'', JStr ''nmap''), (''purpose'', JStr ''port scan'')]])]"
  let ?s1 = "((init ''b'' ''w'' ''id'')\<lparr>test_plan := Some (JObj [(''steps'', JArr [JObj [(''tool'', JStr ''nmap''), (''purpose'', JStr ''port scan'')]])])\<rparr>)"
  let ?p2 = "[(''target'', JStr ''a.example'')]"
  let ?s2 = "((init ''b'' ''w'' ''id'')\<lparr>test_plan := Some (JObj [(''target'', JStr ''a.example'')])\<rparr>)"
  have h1: "test_plan ?s1 = Some (JObj ?p1) \<and> ?p1 \<noteq> []"
    by simp
  have h2: "display_test_plan ?s1 =
     (emit (First_step_panel (JStr ''nmap'') (JStr ''port scan'') (JStr ''Not specified''))
        (emit (Plan_table [(1, JStr ''nmap'', JStr ''N/A'', JStr ''port scan'')]) ?s1), Inr ())"
    by (simp add: eval_defs)
  have h3: "test_plan ?s2 = Some (JObj ?p2) \<and> ?p2 \<noteq> []"
    by simp
  have h4: "map_of ?p2 ''steps'' = None \<and> map_of ?p2 ''recommendations'' = None"
    by simp
  from C7_plan_rendering [of ?s1 ?p1] h1 h2
  have r1: "\<exists>items rows. py_iter (plan_steps ?p1) = Inr items \<and>
      plan_rows ?p1 1 items = Inr rows \<and> length rows = length items"
    by blast
  from C7_plan_rendering [of ?s2 ?p2] h3 h4
  have r2: "display_test_plan ?s2 = (emit (Plan_table []) ?s2, Inr ())"
    by blast
  have h5: "test_plan (init ''b'' ''w'' ''id'') = None"
    by (simp add: init_def)
  from C7_plan_rendering [of "init ''b'' ''w'' ''id''"] h5
  have r3: "display_test_plan (init ''b'' ''w'' ''id'') = (init ''b'' ''w'' ''id'', Inr ())"
    by blast
  have h6: "msg_type (JObj [(''type'', JStr ''test:plan'')]) = JStr ''test:plan''"
    by (simp add: msg_type_def get_def)
  from C7_plan_rendering [where kv = "[(''type'', JStr ''test:plan'')]" and now = 1
      and s = "init ''b'' ''w'' ''id''"] h6
  have "handle_message 1 (JObj [(''type'', JStr ''test:plan'')]) (init ''b'' ''w'' ''id'') =
     propagate (display_test_plan ((init ''b'' ''w'' ''id'')
        \<lparr>test_plan := Some (plan_payload (JObj [(''type'', JStr ''test:plan'')]))\<rparr>))"
    by blast
  then have r4: "handle_message 1 (JObj [(''type'', JStr ''test:plan'')]) (init ''b'' ''w'' ''id'') =
     ((init ''b'' ''w'' ''id'')\<lparr>test_plan := Some (JObj [])\<rparr>, Inr None)"
    by (simp add: plan_payload_def get_def display_test_plan_def propagate_def)
  from h1 h2 h4 h5 h6 r1 r2 r3 r4 show ?thesis by blast
qed

text \<open>
  C8, as stated, fails: when the request fails and the connection is refused, so that no
  listening occurs, both errors are printed and the exit code is 0.
\<close>

theorem C8_counterexample:
  "snd (program \<lparr>arg_target = ''https://sweetspotgov.com'', arg_description = ''test'',
      arg_scope = ''/*'', arg_backend = ''http://localhost:8001'', arg_ws = ''ws://localhost:8001'',
      uuid = ''id'', sent_at = 0, response = Inl TransportError,
      events = Connect_failed TransportError, interrupt_site = At_run, try_fault = None\<rparr>) =
     Some 0 \<and>
   console (fst (program \<lparr>arg_target = ''https://sweetspotgov.com'', arg_description = ''test'',
      arg_scope = ''/*'', arg_backend = ''http://localhost:8001'', arg_ws = ''ws://localhost:8001'',
      uuid = ''id'', sent_at = 0, response = Inl TransportError,
      events = Connect_failed TransportError, interrupt_site = At_run, try_fault = None\<rparr>)) =
     [Monitor_banner, Request_panel ''https://sweetspotgov.com'' ''/*'' ''test'',
      Ws_error TransportError, Error_line TransportError]"
  by (simp add: program_def main_def tasks_def monitor_websocket_def send_test_request_def
      emit_def init_def)

text \<open>
  C8, amended. The exit code is 0 when \<^verbatim>\<open>main\<close> returns (both tasks ended) or the run is
  interrupted, also when the request failed: how the request ends changes neither how
  the monitoring task ends nor the exit code. The exit code is 1 only when an exception
  is raised inside \<^verbatim>\<open>main\<close>'s \<^verbatim>\<open>try\<close> after both tasks have returned.
\<close>

theorem C8_exit_codes:
  "snd (program r) =
     (case snd (snd (tasks r)) of
        Pending \<Rightarrow> None
      | Aborted \<Rightarrow> Some 0
      | Returned \<Rightarrow> (case try_fault r of None \<Rightarrow> Some 0 | Some e \<Rightarrow> Some 1)) \<and>
   snd (snd (tasks (r\<lparr>response := d\<rparr>))) = snd (snd (tasks r)) \<and>
   snd (program (r\<lparr>response := d\<rparr>)) = snd (program r)"
proof -
  have "snd (program (r\<lparr>response := d\<rparr>)) = snd (program r)"
    by (simp add: snd_program snd_tasks_response split: task_end.splits)
  with snd_program [of r] snd_tasks_response [of d r] show ?thesis by blast
qed

text \<open>
  C9. For every event whose discriminator (\<^verbatim>\<open>'unknown'\<close> when the field is absent) is
  none of the seven recognized values, \<^verbatim>\<open>handle_message\<close> returns \<^verbatim>\<open>None\<close> without raising
  and leaves the whole session, console included, as it was; the loop goes on to the next
  frame.
\<close>

theorem C9_unrecognized_is_noop:
  assumes "msg_type (JObj kv) \<notin> set recognized"
  shows "handle_message now (JObj kv) s = (s, Inr None) \<and>
         listen (Message now (Decodes (JObj kv)) # rest) s = listen rest s"
  using assms by (simp add: msg_type_def recognized_def handle_message_def json_loads_def Let_def)

text \<open>C9 at a heartbeat event.\<close>

theorem C9_witness:
  "msg_type (JObj [(''type'', JStr ''heartbeat''), (''seq'', JInt 7)]) \<notin> set recognized \<and>
   handle_message 5 (JObj [(''type'', JStr ''heartbeat''), (''seq'', JInt 7)]) (init ''b'' ''w'' ''id'')
     = (init ''b'' ''w'' ''id'', Inr None)"
proof -
  have h: "msg_type (JObj [(''type'', JStr ''heartbeat''), (''seq'', JInt 7)]) \<notin> set recognized"
    by (simp add: msg_type_def recognized_def get_def)
  from C9_unrecognized_is_noop [OF h] h show ?thesis by blast
qed

text \<open>
  C10. A finding whose severity is \<^verbatim>\<open>null\<close> is appended to the findings, then
  \<^verbatim>\<open>severity.upper()\<close> raises \<^verbatim>\<open>AttributeError\<close>, which leaves the loop: the frames after it
  are not handled and \<^verbatim>\<open>monitor_websocket\<close> prints the error and returns. A finding
  with no fields but the discriminator is shown with the defaults and the loop goes on.
\<close>

theorem C10_null_severity_ends_listening:
  "listen (Message now (Decodes (JObj [(''type'', JStr ''finding''), (''severity'', JNull)])) # rest) s =
     (s\<lparr>findings := findings s @ [JObj [(''type'', JStr ''finding''), (''severity'', JNull)]]\<rparr>,
      Escaped AttributeError) \<and>
   monitor_websocket
     (Connected (Message now (Decodes (JObj [(''type'', JStr ''finding''), (''severity'', JNull)])) # rest)) s =
     (emit (Ws_error AttributeError)
        (emit Ws_connected s
           \<lparr>findings := findings s @ [JObj [(''type'', JStr ''finding''), (''severity'', JNull)]]\<rparr>),
      Returned) \<and>
   listen (Message now (Decodes (JObj [(''type'', JStr ''finding'')])) # rest) s =
     listen rest
       (emit (Finding_panel (JStr ''finding'') (JStr ''N/A'') (JStr ''N/A'') ''cyan'' ''INFO'')
          (s\<lparr>findings := findings s @ [JObj [(''type'', JStr ''finding'')]]\<rparr>))"
  by (simp add: eval_defs monitor_websocket_def)

end
